theory Spec2Isabelle
  imports Complex_Main
begin

section \<open>Python values, errors and list idioms\<close>

text \<open>
  The program is \<^verbatim>\<open>streamlit_house_app.py\<close>. Its numbers are Python floats and ints; the
  model computes with exact real numbers, and with \<open>int\<close> for the quantities the program
  uses as counts (\<^verbatim>\<open>years_to_maturity\<close>, \<^verbatim>\<open>n_payment_per_year\<close>, the numbers of years of
  a scenario: they are passed to \<^verbatim>\<open>range\<close> and to list repetition, which accept ints only).
  Every exception the functions can raise on such inputs under exact arithmetic is a value
  of \<open>py_error\<close>. Rounding and the range of floats are outside the model: where a float
  power leaves the double range Python raises OverflowError (for instance
  \<^verbatim>\<open>(1 + 1000.0 / 12) ** 180\<close>), and the model has a real number there. So a statement
  that a call returns is a statement under exact arithmetic, and is said to be one.
\<close>

datatype py_error = ZeroDivisionError | IndexError | TypeError

definition bind_err :: "py_error + 'a \<Rightarrow> ('a \<Rightarrow> py_error + 'b) \<Rightarrow> py_error + 'b" where
  "bind_err m f = (case m of Inl e \<Rightarrow> Inl e | Inr x \<Rightarrow> f x)"

text \<open>\<^verbatim>\<open>a / b\<close>: true division raises on a zero divisor.\<close>

definition py_div :: "real \<Rightarrow> real \<Rightarrow> py_error + real" where
  "py_div a b = (if b = 0 then Inl ZeroDivisionError else Inr (a / b))"

text \<open>\<^verbatim>\<open>x ** n\<close> for an int exponent, under exact arithmetic: a negative exponent is the
  reciprocal power, and raises on base zero. (The OverflowError of a float result beyond
  the double range is not modelled.)\<close>

definition py_pow :: "real \<Rightarrow> int \<Rightarrow> py_error + real" where
  "py_pow x n =
     (if 0 \<le> n then Inr (x ^ nat n)
      else if x = 0 then Inl ZeroDivisionError
      else Inr (1 / x ^ nat (- n)))"

text \<open>\<^verbatim>\<open>[x] * n\<close> and \<^verbatim>\<open>range(n)\<close>: empty for a negative \<open>n\<close>.\<close>

definition py_repeat :: "'a \<Rightarrow> int \<Rightarrow> 'a list" where
  "py_repeat x n = replicate (nat n) x"

definition py_range :: "int \<Rightarrow> nat list" where
  "py_range n = [0..<nat n]"

text \<open>\<^verbatim>\<open>xs.pop(0)\<close>: the first element and the rest, IndexError on the empty list.\<close>

fun pop0 :: "'a list \<Rightarrow> py_error + ('a \<times> 'a list)" where
  "pop0 [] = Inl IndexError"
| "pop0 (x # xs) = Inr (x, xs)"

section \<open>Series accumulator: \<^verbatim>\<open>values_of_series_of_invest\<close>\<close>

text \<open>
  The function returns either the scalar \<^verbatim>\<open>total\<close> or the list \<^verbatim>\<open>value_over_time\<close>,
  chosen by \<^verbatim>\<open>final_only\<close>; the two shapes are the constructors of \<open>invest_value\<close>.
  A caller that iterates over the scalar, or computes with the list, gets a TypeError.
  The \<^verbatim>\<open>for\<close> loop over \<^verbatim>\<open>zip(invest_amounts, rate_between_amounts)\<close> is \<open>invest_loop\<close>
  on the zipped list, carrying \<^verbatim>\<open>total\<close> (here \<open>total'\<close>) and \<^verbatim>\<open>value_over_time\<close>.
  Lists are passed by value: the two \<^verbatim>\<open>pop(0)\<close> calls of the beginning-of-period mode also
  shorten the caller's lists, which no caller in the program reads again (and every call in
  the program is in end-of-period mode).
\<close>

datatype invest_value = Total real | Series "real list"

fun the_series :: "invest_value \<Rightarrow> py_error + real list" where
  "the_series (Series xs) = Inr xs"
| "the_series (Total t) = Inl TypeError"

fun the_total :: "invest_value \<Rightarrow> py_error + real" where
  "the_total (Total t) = Inr t"
| "the_total (Series xs) = Inl TypeError"

fun invest_loop :: "(real \<times> real) list \<Rightarrow> real \<Rightarrow> real list \<Rightarrow> real \<times> real list" where
  "invest_loop [] total' value_over_time = (total', value_over_time)"
| "invest_loop ((invest, rate) # rest) total' value_over_time =
     invest_loop rest (total' * (1 + rate) + invest)
       (value_over_time @ [total' * (1 + rate) + invest])"

definition select_result :: "bool \<Rightarrow> real \<times> real list \<Rightarrow> invest_value" where
  "select_result final_only st = (if final_only then Total (fst st) else Series (snd st))"

definition values_of_series_of_invest ::
  "real list \<Rightarrow> real list \<Rightarrow> bool \<Rightarrow> bool \<Rightarrow> py_error + invest_value" where
  "values_of_series_of_invest invest_amounts rate_between_amounts final_only
       invest_at_begining_of_period =
     (if invest_at_begining_of_period then
        bind_err (pop0 invest_amounts) (\<lambda>(first_invest, invest_rest).
        bind_err (pop0 rate_between_amounts) (\<lambda>(first_rate, rate_rest).
          let total' = first_invest * (1 + first_rate)
          in Inr (select_result final_only
                    (invest_loop (zip invest_rest rate_rest) total' [total']))))
      else
        Inr (select_result final_only
               (invest_loop (zip invest_amounts rate_between_amounts) 0 [])))"

section \<open>Closed form: \<^verbatim>\<open>total_of_regular_investment\<close>\<close>

definition total_of_regular_investment :: "real \<Rightarrow> real \<Rightarrow> int \<Rightarrow> py_error + real" where
  "total_of_regular_investment reg_invest_value rate n_periods =
     (if rate = 0 then Inr (reg_invest_value * of_int n_periods)
      else
        let factor = 1 + rate in
        bind_err (py_pow factor n_periods) (\<lambda>factor_pow.
        bind_err (py_div (reg_invest_value * (factor - factor_pow)) (1 - factor)) (\<lambda>q.
          Inr (reg_invest_value + q))))"

section \<open>Mortgage payment: \<^verbatim>\<open>compute_mortg_principal\<close>\<close>

definition compute_mortg_principal :: "real \<Rightarrow> real \<Rightarrow> int \<Rightarrow> int \<Rightarrow> py_error + real" where
  "compute_mortg_principal loan_rate loan_amount years_to_maturity n_payment_per_year =
     (if loan_rate = 0 then
        py_div loan_amount (of_int (years_to_maturity * n_payment_per_year))
      else
        bind_err (py_div loan_rate (of_int n_payment_per_year)) (\<lambda>period_rate.
          let period_rate_factor = 1 + period_rate;
              n_periods = years_to_maturity * n_payment_per_year
          in
          bind_err (py_pow period_rate_factor n_periods) (\<lambda>factor_pow.
            let total_loan = loan_amount * factor_pow in
            bind_err (values_of_series_of_invest (py_repeat 1 n_periods)
                        (py_repeat period_rate n_periods) True False) (\<lambda>v.
            bind_err (the_total v) (\<lambda>invest_value_factor.
              py_div total_loan invest_value_factor)))))"

section \<open>Amortization schedule: \<^verbatim>\<open>compute_equity_and_interest\<close>\<close>

text \<open>
  The variables the loop updates are the fields of \<open>loan_state\<close>; \<open>period_step\<close> is one
  pass through the loop body and \<open>run_periods k\<close> is \<open>k\<close> passes. \<open>loan_state_after\<close> is
  the function up to and including \<open>k\<close> passes of its loop, so that the state between
  two passes, which the function does not return, can be spoken about.
\<close>

record loan_state =
  equity :: real
  interest_paid :: real
  remaining_loan :: real
  equity_over_time :: "real list"
  interest_paid_over_time :: "real list"

definition period_step :: "real \<Rightarrow> real \<Rightarrow> loan_state \<Rightarrow> loan_state" where
  "period_step principal' period_interest_factor s =
     (let period_interest = remaining_loan s * period_interest_factor;
          remaining_loan' = remaining_loan s + (period_interest - principal');
          interest_paid' = interest_paid s + period_interest;
          equity' = equity s + (principal' - period_interest)
      in \<lparr> equity = equity',
           interest_paid = interest_paid',
           remaining_loan = remaining_loan',
           equity_over_time = equity_over_time s @ [equity'],
           interest_paid_over_time = interest_paid_over_time s @ [interest_paid'] \<rparr>)"

fun run_periods :: "nat \<Rightarrow> real \<Rightarrow> real \<Rightarrow> loan_state \<Rightarrow> loan_state" where
  "run_periods 0 principal' period_interest_factor s = s"
| "run_periods (Suc k) principal' period_interest_factor s =
     run_periods k principal' period_interest_factor
       (period_step principal' period_interest_factor s)"

definition initial_state :: "real \<Rightarrow> real \<Rightarrow> loan_state" where
  "initial_state initial_equity loan_amount =
     \<lparr> equity = initial_equity,
       interest_paid = 0,
       remaining_loan = loan_amount,
       equity_over_time = [initial_equity],
       interest_paid_over_time = [0] \<rparr>"

definition loan_state_after ::
  "nat \<Rightarrow> real \<Rightarrow> real \<Rightarrow> int \<Rightarrow> int \<Rightarrow> real \<Rightarrow> real \<Rightarrow> py_error + loan_state" where
  "loan_state_after k loan_rate loan_amount years_to_maturity n_payment_per_year
       initial_equity estate_growth_rate =
     bind_err (compute_mortg_principal loan_rate loan_amount years_to_maturity
                 n_payment_per_year) (\<lambda>principal'.
     bind_err (py_div loan_rate (of_int n_payment_per_year)) (\<lambda>period_interest_factor.
     bind_err (py_div estate_growth_rate (of_int n_payment_per_year)) (\<lambda>g.
       Inr (run_periods k principal' period_interest_factor
              (initial_state initial_equity loan_amount)))))"

definition compute_equity_and_interest ::
  "real \<Rightarrow> real \<Rightarrow> int \<Rightarrow> int \<Rightarrow> real \<Rightarrow> real \<Rightarrow> py_error + (real list \<times> real list)" where
  "compute_equity_and_interest loan_rate loan_amount years_to_maturity n_payment_per_year
       initial_equity estate_growth_rate =
     bind_err (loan_state_after (nat (years_to_maturity * n_payment_per_year)) loan_rate
                 loan_amount years_to_maturity n_payment_per_year initial_equity
                 estate_growth_rate) (\<lambda>s.
       let period_estate_growth_factor =
             1 + estate_growth_rate / of_int n_payment_per_year
       in Inr (if estate_growth_rate > 0
               then map (\<lambda>(n_period, equ). equ * period_estate_growth_factor ^ (n_period + 1))
                      (enumerate 0 (equity_over_time s))
               else equity_over_time s,
               interest_paid_over_time s))"

section \<open>Inflation adjustment and the house model\<close>

text \<open>The generator \<^verbatim>\<open>inflation_adjust\<close> is consumed once, by a list comprehension: it is
  the list of the values it yields.\<close>

definition inflation_adjust :: "real list \<Rightarrow> real \<Rightarrow> real list" where
  "inflation_adjust month_costs_gen yearly_infl_rate =
     map (\<lambda>(i, cost). cost * (1 + yearly_infl_rate / 12) ^ i) (enumerate 0 month_costs_gen)"

text \<open>
  The local lists of \<^verbatim>\<open>house_investment\<close>, each as a function of what it is computed
  from. The unused parameter \<^verbatim>\<open>plot\<close> is left out.
\<close>

definition infl_adj_extra_cost_per_month ::
  "real \<Rightarrow> real \<Rightarrow> real \<Rightarrow> real \<Rightarrow> real \<Rightarrow> real \<Rightarrow> int \<Rightarrow> real list" where
  "infl_adj_extra_cost_per_month tax insurance repair inflation_rate percentage_rented
       income_tax n_total_months =
     map (\<lambda>cost. cost * (1 - percentage_rented * income_tax))
       (inflation_adjust (py_repeat ((tax + insurance + repair) / 12) n_total_months)
          inflation_rate)"

definition total_cost_per_month :: "real \<Rightarrow> int \<Rightarrow> real list \<Rightarrow> real list" where
  "total_cost_per_month monthly_mort_payment n_months_repay costs =
     map (\<lambda>(i, cost). cost + monthly_mort_payment * of_bool (int i \<le> n_months_repay))
       (enumerate 0 costs)"

definition rental_income :: "real \<Rightarrow> real \<Rightarrow> real \<Rightarrow> real \<Rightarrow> real \<Rightarrow> int \<Rightarrow> real list" where
  "rental_income monthly_rental_income management_fees_rate percentage_rented income_tax
       estate_rate n_total_months =
     map (\<lambda>i. monthly_rental_income * (1 - management_fees_rate) * percentage_rented
               * (1 - income_tax) * (1 + estate_rate / 12) ^ (i + 1))
       (py_range n_total_months)"

definition house_value :: "real \<Rightarrow> real \<Rightarrow> int \<Rightarrow> real list" where
  "house_value house_cost estate_rate n_total_months =
     map (\<lambda>i. house_cost * (1 + estate_rate / 12) ^ (i + 1)) (py_range n_total_months)"

definition unrepaid_loan_remaining :: "real \<Rightarrow> real \<Rightarrow> int \<Rightarrow> real list" where
  "unrepaid_loan_remaining loan_amount mortg_rate n_months_repay =
     map (\<lambda>i. loan_amount * (1 + mortg_rate / 12) ^ (i + 1)) (py_range n_months_repay)"

definition loan_remaining ::
  "real \<Rightarrow> real \<Rightarrow> real \<Rightarrow> int \<Rightarrow> int \<Rightarrow> py_error + real list" where
  "loan_remaining loan_amount mortg_rate monthly_mort_payment n_months_repay n_total_months =
     bind_err (values_of_series_of_invest (py_repeat monthly_mort_payment n_months_repay)
                 (py_repeat (mortg_rate / 12) n_months_repay) False False) (\<lambda>v.
     bind_err (the_series v) (\<lambda>repaid_total.
       Inr (map (\<lambda>i. fst i - snd i)
              (zip (unrepaid_loan_remaining loan_amount mortg_rate n_months_repay) repaid_total)
            @ py_repeat 0 (n_total_months - n_months_repay))))"

definition house_investment ::
  "real \<Rightarrow> real \<Rightarrow> real \<Rightarrow> real \<Rightarrow> real \<Rightarrow> real \<Rightarrow> real \<Rightarrow> int \<Rightarrow> int \<Rightarrow> real \<Rightarrow> real \<Rightarrow> real
     \<Rightarrow> real \<Rightarrow> real \<Rightarrow> py_error + (real list \<times> real list)" where
  "house_investment mortg_rate down_payment_perc house_cost tax insurance repair estate_rate
       mortgage_n_years n_years_after_pay_off monthly_rental_income percentage_rented
       inflation_rate income_tax management_fees_rate =
     (let n_months_repay = mortgage_n_years * 12;
          n_total_months = n_months_repay + n_years_after_pay_off * 12;
          loan_amount = house_cost * (1 - down_payment_perc)
      in
      bind_err (compute_mortg_principal mortg_rate loan_amount mortgage_n_years 12)
        (\<lambda>monthly_mort_payment.
          let costs = total_cost_per_month monthly_mort_payment n_months_repay
                        (infl_adj_extra_cost_per_month tax insurance repair inflation_rate
                           percentage_rented income_tax n_total_months);
              monthly_income =
                map (\<lambda>i. fst i - snd i)
                  (zip (rental_income monthly_rental_income management_fees_rate
                          percentage_rented income_tax estate_rate n_total_months) costs)
          in
          bind_err (loan_remaining loan_amount mortg_rate monthly_mort_payment n_months_repay
                      n_total_months) (\<lambda>remaining.
            Inr (map (\<lambda>i. fst i - snd i)
                   (zip (house_value house_cost estate_rate n_total_months) remaining),
                 monthly_income))))"

section \<open>Comparison with a stock investment\<close>

definition compare_house_invest_vs_stock ::
  "real list \<Rightarrow> real list \<Rightarrow> real \<Rightarrow> real \<Rightarrow> real \<Rightarrow> py_error + (real list \<times> real list)" where
  "compare_house_invest_vs_stock equity' monthly_income stock_market_rate down_payment_perc
       house_cost =
     (let stock_market_month_rate = stock_market_rate / 12;
          positive_monthly_income = map (\<lambda>inc. inc * of_bool (inc > 0)) monthly_income;
          negative_monthly_income = map (\<lambda>inc. - inc * of_bool (inc \<le> 0)) monthly_income
      in
      bind_err (values_of_series_of_invest positive_monthly_income
                  (py_repeat stock_market_month_rate (int (length monthly_income)))
                  False False) (\<lambda>v.
      bind_err (the_series v) (\<lambda>invested_positive.
        let house_invest = map (\<lambda>i. fst i + snd i) (zip equity' invested_positive);
            down_payment_invest =
              map (\<lambda>i. down_payment_perc * house_cost * (1 + stock_market_month_rate) ^ (i + 1))
                (py_range (int (length monthly_income)))
        in
        bind_err (values_of_series_of_invest negative_monthly_income
                    (py_repeat stock_market_month_rate (int (length negative_monthly_income)))
                    False False) (\<lambda>w.
        bind_err (the_series w) (\<lambda>invested_negative_monthly_income.
          Inr (house_invest,
               map (\<lambda>(i, j). i + j)
                 (zip down_payment_invest invested_negative_monthly_income)))))))"

section \<open>The accumulator loop\<close>

text \<open>Facts about \<open>invest_loop\<close>: the list it returns extends the list it is given by one
  entry per pair, the running total does not depend on that list, and entry \<open>i\<close> is the
  total of the first \<open>i + 1\<close> pairs.\<close>

lemma invest_loop_snd_append:
  "snd (invest_loop ps t acc) = acc @ snd (invest_loop ps t [])"
proof (induction ps arbitrary: t acc)
  case Nil
  show ?case by simp
next
  case (Cons p ps)
  obtain i r where p: "p = (i, r)" by (cases p)
  show ?case
    unfolding p invest_loop.simps
    by (subst Cons.IH, subst (2) Cons.IH) simp
qed

lemma invest_loop_fst_acc:
  "fst (invest_loop ps t acc) = fst (invest_loop ps t acc')"
proof (induction ps arbitrary: t acc acc')
  case Nil
  show ?case by simp
next
  case (Cons p ps)
  obtain i r where p: "p = (i, r)" by (cases p)
  show ?case unfolding p invest_loop.simps by (rule Cons.IH)
qed

lemma invest_loop_length:
  "length (snd (invest_loop ps t acc)) = length acc + length ps"
  by (induction ps t acc rule: invest_loop.induct) simp_all

lemma invest_loop_last:
  "ps \<noteq> [] \<or> (acc \<noteq> [] \<and> last acc = t) \<Longrightarrow>
     snd (invest_loop ps t acc) \<noteq> [] \<and>
     last (snd (invest_loop ps t acc)) = fst (invest_loop ps t acc)"
  by (induction ps t acc rule: invest_loop.induct) simp_all

lemma invest_loop_nth:
  "i < length ps \<Longrightarrow>
     snd (invest_loop ps t acc) ! (length acc + i) = fst (invest_loop (take (Suc i) ps) t [])"
proof (induction ps t acc arbitrary: i rule: invest_loop.induct)
  case (1 t acc)
  then show ?case by simp
next
  case (2 inv r rest t acc)
  show ?case
  proof (cases i)
    case 0
    have "snd (invest_loop rest (t * (1 + r) + inv) (acc @ [t * (1 + r) + inv])) ! length acc
            = (acc @ [t * (1 + r) + inv]) ! length acc"
      by (subst invest_loop_snd_append) (simp add: nth_append)
    then show ?thesis using 0 by simp
  next
    case (Suc j)
    then have "j < length rest" using "2.prems" by simp
    from "2.IH"[OF this] show ?thesis using Suc
      by (simp add: invest_loop_fst_acc[of _ _ "[_]" "[]"])
  qed
qed

text \<open>A constant contribution \<open>c\<close> at a constant rate \<open>r\<close>: the geometric series.\<close>

lemma invest_loop_replicate:
  "fst (invest_loop (replicate n (c, r)) t acc) = t * (1 + r) ^ n + c * (\<Sum>k<n. (1 + r) ^ k)"
proof (induction n arbitrary: t acc)
  case 0
  show ?case by simp
next
  case (Suc n)
  show ?case
    by (simp add: Suc.IH algebra_simps)
qed

lemma zip_take_min:
  "zip (take (min (length xs) (length ys)) xs) (take (min (length xs) (length ys)) ys) = zip xs ys"
  by (induction xs ys rule: list_induct2') simp_all

lemma accumulate_constant:
  "values_of_series_of_invest (py_repeat c (int n)) (py_repeat r (int n)) True False
     = Inr (Total (c * (\<Sum>k<n. (1 + r) ^ k)))"
  by (simp add: values_of_series_of_invest_def select_result_def py_repeat_def
      invest_loop_replicate)

section \<open>Claims about the accumulator and the closed form\<close>

text \<open>
  C2. For a contribution \<open>c\<close>, a rate \<open>r\<close> and a natural number \<open>n\<close> of periods,
  \<^verbatim>\<open>total_of_regular_investment(c, r, n)\<close> returns \<open>c * n\<close> when \<open>r = 0\<close> and
  \<open>c + c * (f - f^n) / (1 - f)\<close> with \<open>f = 1 + r\<close> otherwise, and the end-of-period
  accumulator on \<open>n\<close> copies of \<open>c\<close> and \<open>n\<close> copies of \<open>r\<close> returns the same total.
\<close>

theorem regular_investment_matches_accumulator:
  "total_of_regular_investment c r (int n) =
     Inr (if r = 0 then c * real n else c + c * ((1 + r) - (1 + r) ^ n) / (1 - (1 + r)))
   \<and> values_of_series_of_invest (py_repeat c (int n)) (py_repeat r (int n)) True False =
       map_sum id Total (total_of_regular_investment c r (int n))"
proof (cases "r = 0")
  case True
  then show ?thesis using accumulate_constant[of c n r]
    by (simp add: total_of_regular_investment_def mult.commute)
next
  case False
  then have ne: "1 + r \<noteq> 1" by simp
  have cf: "c + c * ((1 + r) - (1 + r) ^ n) / (1 - (1 + r)) = c * (\<Sum>k<n. (1 + r) ^ k)"
    using False by (simp add: geometric_sum[OF ne] field_simps)
  have tot: "total_of_regular_investment c r (int n)
        = Inr (c + c * ((1 + r) - (1 + r) ^ n) / (1 - (1 + r)))"
    using False
    by (simp add: total_of_regular_investment_def py_pow_def py_div_def bind_err_def Let_def)
  show ?thesis using False accumulate_constant[of c n r] tot cf by simp
qed

theorem regular_investment_matches_accumulator_witness:
  "total_of_regular_investment 10 (1 / 100) (int 2) = Inr (201 / 10)
   \<and> values_of_series_of_invest (py_repeat 10 (int 2)) (py_repeat (1 / 100) (int 2)) True False
       = Inr (Total (201 / 10))"
  using regular_investment_matches_accumulator[of 10 "1 / 100" 2]
  by (simp add: power2_eq_square)

text \<open>
  C3, as the spec states it: for all equal-length sequences the call with
  \<^verbatim>\<open>final_only=True\<close> equals the last element of the list the call with
  \<^verbatim>\<open>final_only=False\<close> returns. On two empty sequences, in end-of-period mode, the first
  call returns 0 and the second the empty list, which has no last element.
\<close>

theorem final_only_empty_counterexample:
  "values_of_series_of_invest [] [] True False = Inr (Total 0)
   \<and> values_of_series_of_invest [] [] False False = Inr (Series [])"
  by (simp add: values_of_series_of_invest_def select_result_def)

text \<open>
  C3, amended: for all non-empty sequences of equal length, in end-of-period and in
  beginning-of-period mode, the call with \<^verbatim>\<open>final_only=False\<close> returns a non-empty list and
  the call with \<^verbatim>\<open>final_only=True\<close> returns its last element.
\<close>

theorem final_only_is_last:
  assumes "length invest = length rate" and "invest \<noteq> []"
  shows "\<exists>t xs. values_of_series_of_invest invest rate True b = Inr (Total t)
           \<and> values_of_series_of_invest invest rate False b = Inr (Series xs)
           \<and> xs \<noteq> [] \<and> t = last xs"
proof (cases b)
  case False
  from assms have "zip invest rate \<noteq> []" by (cases invest; cases rate) simp_all
  then show ?thesis
    using False invest_loop_last[where ps = "zip invest rate" and t = 0 and acc = "[]"]
    by (simp add: values_of_series_of_invest_def select_result_def)
next
  case True
  from assms obtain a as r rs where "invest = a # as" "rate = r # rs"
    by (cases invest; cases rate) simp_all
  then show ?thesis
    using True invest_loop_last[where ps = "zip as rs" and t = "a * (1 + r)"
        and acc = "[a * (1 + r)]"]
    by (simp add: values_of_series_of_invest_def select_result_def bind_err_def Let_def)
qed

theorem final_only_is_last_witness:
  "length [1, 1 :: real] = length [5 / 100, 8 / 100 :: real] \<and> [1, 1 :: real] \<noteq> []
   \<and> (\<exists>t xs. values_of_series_of_invest [1, 1] [5 / 100, 8 / 100] True True = Inr (Total t)
           \<and> values_of_series_of_invest [1, 1] [5 / 100, 8 / 100] False True = Inr (Series xs)
           \<and> xs \<noteq> [] \<and> t = last xs)"
  using final_only_is_last[of "[1, 1]" "[5 / 100, 8 / 100]" True]
  by simp

text \<open>
  C8, as the spec states it: sequences of unequal lengths make the accumulator fail with an
  InvalidInput error. The function has no length check: \<^verbatim>\<open>zip\<close> stops at the shorter
  sequence, and \<^verbatim>\<open>values_of_series_of_invest([1, 1], [0])\<close> returns 1.
\<close>

theorem unequal_lengths_counterexample:
  "values_of_series_of_invest [1, 1] [0] True False = Inr (Total 1)"
  by (simp add: values_of_series_of_invest_def select_result_def)

text \<open>
  C8, amended: on sequences of any two lengths the accumulator does what it does on both
  sequences cut to the shorter length; it raises IndexError (from \<^verbatim>\<open>pop(0)\<close>) exactly when
  it runs in beginning-of-period mode and one of the sequences is empty, and it raises
  nothing else.
\<close>

theorem unequal_lengths_truncate:
  "values_of_series_of_invest invest rate final_only b =
     values_of_series_of_invest (take (min (length invest) (length rate)) invest)
       (take (min (length invest) (length rate)) rate) final_only b
   \<and> (values_of_series_of_invest invest rate final_only b = Inl IndexError
        \<longleftrightarrow> b \<and> (invest = [] \<or> rate = []))
   \<and> ((\<exists>e. values_of_series_of_invest invest rate final_only b = Inl e)
        \<longleftrightarrow> b \<and> (invest = [] \<or> rate = []))"
proof (cases b)
  case False
  then show ?thesis by (simp add: values_of_series_of_invest_def zip_take_min)
next
  case True
  show ?thesis
  proof (cases invest)
    case Nil
    then show ?thesis using True by (simp add: values_of_series_of_invest_def bind_err_def)
  next
    case (Cons a as)
    note inv = this
    show ?thesis
    proof (cases rate)
      case Nil
      then show ?thesis using True inv by (simp add: values_of_series_of_invest_def bind_err_def)
    next
      case (Cons r rs)
      have "min (length invest) (length rate) = Suc (min (length as) (length rs))"
        using inv Cons by simp
      then show ?thesis using True inv Cons
        by (simp add: values_of_series_of_invest_def bind_err_def Let_def zip_take_min)
    qed
  qed
qed

theorem unequal_lengths_truncate_witness:
  "values_of_series_of_invest [1, 1] [0] True False = values_of_series_of_invest [1] [0] True False
   \<and> values_of_series_of_invest [1, 1] [0] True False \<noteq> Inl IndexError
   \<and> \<not> (\<exists>e. values_of_series_of_invest [1, 1] [0] True False = Inl e)
   \<and> values_of_series_of_invest [1, 1] [] True True = Inl IndexError"
  using unequal_lengths_truncate[of "[1, 1]" "[0]" True False]
    unequal_lengths_truncate[of "[1, 1]" "[]" True True]
  by auto

section \<open>The mortgage payment\<close>


lemma unit_growth:
  "0 \<le> N \<Longrightarrow> values_of_series_of_invest (py_repeat 1 N) (py_repeat pr N) True False
     = Inr (Total (\<Sum>k<nat N. (1 + pr) ^ k))"
  using accumulate_constant[of 1 "nat N" pr] by simp

lemma compute_mortg_principal_pos:
  assumes "0 < y" "0 < n"
  shows "compute_mortg_principal r L y n =
     (if r = 0 then Inr (L / of_int (y * n))
      else py_div (L * (1 + r / of_int n) ^ nat (y * n))
             (\<Sum>k<nat (y * n). (1 + r / of_int n) ^ k))"
proof -
  from assms have pos: "0 < y * n" by simp
  then show ?thesis using assms
    by (simp add: compute_mortg_principal_def py_div_def py_pow_def bind_err_def Let_def
        unit_growth)
qed


lemma example_payment: "compute_mortg_principal 1 1000 1 2 = Inr 900"
  by (simp add: compute_mortg_principal_pos py_div_def eval_nat_numeral)

text \<open>
  C4. For positive \<^verbatim>\<open>years_to_maturity\<close> and \<^verbatim>\<open>n_payment_per_year\<close>,
  \<^verbatim>\<open>compute_mortg_principal\<close> returns \<open>loan_amount / (years_to_maturity * n_payment_per_year)\<close>
  when the rate is 0, and otherwise the quotient \<^verbatim>\<open>total_loan / unit_growth\<close>, where
  \<open>total_loan = loan_amount * (1 + loan_rate / n_payment_per_year) ^ n_periods\<close> and
  \<open>unit_growth\<close> is what the end-of-period accumulator returns on \<open>n_periods\<close> ones at the
  period rate. The quotient is Python's: it raises when \<open>unit_growth\<close> is 0
  (lemma \<open>compute_mortg_principal_returns\<close> says when).
\<close>

theorem mortgage_payment_formula:
  assumes "0 < y" "0 < n"
  shows "\<exists>u. values_of_series_of_invest (py_repeat 1 (y * n)) (py_repeat (r / of_int n) (y * n))
               True False = Inr (Total u)
     \<and> compute_mortg_principal r L y n =
         (if r = 0 then Inr (L / of_int (y * n))
          else py_div (L * (1 + r / of_int n) ^ nat (y * n)) u)"
proof -
  from assms have "0 \<le> y * n" by simp
  from unit_growth[OF this] compute_mortg_principal_pos[OF assms] show ?thesis by simp
qed

theorem mortgage_payment_formula_witness:
  "(0::int) < 1 \<and> (0::int) < 2 \<and>
   (\<exists>u. values_of_series_of_invest (py_repeat 1 (1 * 2)) (py_repeat (1 / of_int 2) (1 * 2))
               True False = Inr (Total u)
     \<and> compute_mortg_principal 1 1000 1 2 = py_div (1000 * (1 + 1 / of_int 2) ^ nat (1 * 2)) u)"
  using mortgage_payment_formula[of 1 2 1 1000] by simp

lemma zero_years_raises:
  "compute_mortg_principal r L 0 n = Inl ZeroDivisionError"
  by (simp add: compute_mortg_principal_def py_div_def py_pow_def bind_err_def Let_def
      values_of_series_of_invest_def select_result_def py_repeat_def)

text \<open>
  C9, as the spec states it: \<^verbatim>\<open>years_to_maturity = 0\<close> or \<^verbatim>\<open>n_payment_per_year <= 0\<close>
  is an InvalidInput error and never a number. The function validates nothing: with rate 0,
  30 years and \<open>-12\<close> payments a year it returns \<open>1000 / (-360)\<close>.
\<close>

theorem negative_payments_per_year_counterexample:
  "compute_mortg_principal 0 1000 30 (- 12) = Inr (- (25 / 9))"
  by (simp add: compute_mortg_principal_def py_div_def)

text \<open>
  C9, amended: with \<^verbatim>\<open>years_to_maturity = 0\<close> or \<^verbatim>\<open>n_payment_per_year = 0\<close>, whatever the
  rate and the amount, \<^verbatim>\<open>compute_mortg_principal\<close> raises ZeroDivisionError and returns
  no number.
\<close>

theorem zero_periods_raises:
  "y = 0 \<or> n = 0 \<Longrightarrow> compute_mortg_principal r L y n = Inl ZeroDivisionError"
proof (cases "y = 0")
  case True
  then show ?thesis by (simp add: zero_years_raises)
next
  case False
  assume "y = 0 \<or> n = 0"
  with False have "n = 0" by simp
  then show ?thesis by (simp add: compute_mortg_principal_def py_div_def bind_err_def)
qed

theorem zero_periods_raises_witness:
  "compute_mortg_principal (1 / 40) 1000 0 12 = Inl ZeroDivisionError"
  using zero_periods_raises[of 0 12 "1 / 40" 1000] by simp

section \<open>The amortization loop\<close>

lemma run_periods_remaining:
  "remaining_loan (run_periods k P q s) =
     remaining_loan s * (1 + q) ^ k - P * (\<Sum>j<k. (1 + q) ^ j)"
proof (induction k arbitrary: s)
  case 0
  show ?case by simp
next
  case (Suc k)
  show ?case
    by (simp add: Suc.IH period_step_def Let_def algebra_simps)
qed

lemma run_periods_invariant:
  "equity (run_periods k P q s) + remaining_loan (run_periods k P q s)
     = equity s + remaining_loan s"
  by (induction k arbitrary: s) (simp_all add: period_step_def Let_def)

lemma run_periods_step: "run_periods k P q (period_step P q s) = run_periods (Suc k) P q s"
  by simp

text \<open>Entry \<open>j + 1\<close> of \<^verbatim>\<open>equity_over_time\<close> is the equity after \<open>j + 1\<close> passes.\<close>

lemma run_periods_equity_over_time:
  "equity_over_time (run_periods k P q s) =
     equity_over_time s @ map (\<lambda>j. equity (run_periods (Suc j) P q s)) [0..<k]"
proof (induction k arbitrary: s)
  case 0
  show ?case by simp
next
  case (Suc k)
  have "equity_over_time (run_periods (Suc k) P q s)
      = equity_over_time (period_step P q s)
          @ map (\<lambda>j. equity (run_periods (Suc j) P q (period_step P q s))) [0..<k]"
    by (simp add: Suc.IH del: upt_Suc)
  also have "equity_over_time (period_step P q s)
      = equity_over_time s @ [equity (run_periods (Suc 0) P q s)]"
    by (simp add: period_step_def Let_def)
  finally show ?case
    by (simp add: map_upt_Suc del: upt_Suc run_periods.simps(2) add: run_periods_step)
qed

lemma loan_state_after_eq:
  "loan_state_after k r L y n E g =
     bind_err (compute_mortg_principal r L y n) (\<lambda>P.
       if n = 0 then Inl ZeroDivisionError
       else Inr (run_periods k P (r / of_int n) (initial_state E L)))"
  by (simp add: loan_state_after_def py_div_def bind_err_def split: sum.splits)

lemma example_schedule:
  "loan_state_after (nat (1 * 2)) 1 1000 1 2 0 0 =
     Inr \<lparr>equity = 1000, interest_paid = 800, remaining_loan = 0,
          equity_over_time = [0, 400, 1000], interest_paid_over_time = [0, 500, 800]\<rparr>"
  by (simp add: loan_state_after_eq example_payment bind_err_def eval_nat_numeral
      period_step_def initial_state_def Let_def)

text \<open>
  C1. For positive \<^verbatim>\<open>years_to_maturity\<close> and \<^verbatim>\<open>n_payment_per_year\<close> and every loan amount,
  with the payment \<^verbatim>\<open>compute_mortg_principal\<close> computes, the remaining loan that
  \<^verbatim>\<open>compute_equity_and_interest\<close> maintains is exactly 0 after
  \<open>years_to_maturity * n_payment_per_year\<close> passes of its loop.
\<close>

theorem balance_zero_at_maturity:
  assumes "0 < y" "0 < n"
    and "loan_state_after (nat (y * n)) r L y n E g = Inr s"
  shows "remaining_loan s = 0"
proof -
  let ?N = "nat (y * n)"
  let ?f = "1 + r / of_int n"
  from assms(3) obtain P where P: "compute_mortg_principal r L y n = Inr P"
    and s: "s = run_periods ?N P (r / of_int n) (initial_state E L)"
    using assms(2) by (auto simp: loan_state_after_eq bind_err_def split: sum.splits)
  have bal: "remaining_loan s = L * ?f ^ ?N - P * (\<Sum>j<?N. ?f ^ j)"
    unfolding s by (simp add: run_periods_remaining initial_state_def)
  show ?thesis
  proof (cases "r = 0")
    case True
    with P assms have "P = L / of_int (y * n)"
      by (simp add: compute_mortg_principal_pos)
    then show ?thesis using bal True assms by simp
  next
    case False
    with P assms have "(\<Sum>j<?N. ?f ^ j) \<noteq> 0 \<and> P = L * ?f ^ ?N / (\<Sum>j<?N. ?f ^ j)"
      by (simp add: compute_mortg_principal_pos py_div_def split: if_splits)
    then show ?thesis using bal by simp
  qed
qed

theorem balance_zero_at_maturity_witness:
  "(0::int) < 1 \<and> (0::int) < 2
   \<and> loan_state_after (nat (1 * 2)) 1 1000 1 2 0 0 =
       Inr \<lparr>equity = 1000, interest_paid = 800, remaining_loan = 0,
            equity_over_time = [0, 400, 1000], interest_paid_over_time = [0, 500, 800]\<rparr>
   \<and> remaining_loan \<lparr>equity = 1000, interest_paid = 800, remaining_loan = 0,
            equity_over_time = [0, 400, 1000], interest_paid_over_time = [0, 500, 800]\<rparr> = 0"
proof -
  note h = example_schedule
  from balance_zero_at_maturity[OF _ _ h] h show ?thesis by simp
qed

text \<open>
  C10. With \<^verbatim>\<open>estate_growth_rate = 0\<close>, for every \<open>k\<close> from 0 to
  \<open>years_to_maturity * n_payment_per_year\<close>, entry \<open>k\<close> of the returned equity list plus the
  remaining loan after \<open>k\<close> passes of the loop is \<open>initial_equity + loan_amount\<close>.
\<close>

theorem equity_plus_balance_invariant:
  assumes "compute_equity_and_interest r L y n E 0 = Inr (eq, ip)"
    and "k \<le> nat (y * n)"
  shows "\<exists>s. loan_state_after k r L y n E 0 = Inr s \<and> eq ! k + remaining_loan s = E + L"
proof -
  from assms(1) obtain P where P: "compute_mortg_principal r L y n = Inr P" and n: "n \<noteq> 0"
    and eq: "eq = equity_over_time (run_periods (nat (y * n)) P (r / of_int n) (initial_state E L))"
    by (auto simp: compute_equity_and_interest_def loan_state_after_eq bind_err_def
        split: sum.splits if_splits)
  let ?s = "run_periods k P (r / of_int n) (initial_state E L)"
  have st: "loan_state_after k r L y n E 0 = Inr ?s"
    using P n by (simp add: loan_state_after_eq bind_err_def)
  have "eq ! k = equity ?s"
  proof (cases k)
    case 0
    then show ?thesis by (simp add: eq run_periods_equity_over_time initial_state_def)
  next
    case (Suc j)
    then have "j < nat (y * n)" using assms(2) by simp
    then show ?thesis using Suc
      by (simp add: eq run_periods_equity_over_time initial_state_def nth_append
          del: upt_Suc run_periods.simps(2))
  qed
  then show ?thesis using st run_periods_invariant[of k P "r / of_int n" "initial_state E L"]
    by (simp add: initial_state_def)
qed

theorem equity_plus_balance_invariant_witness:
  "compute_equity_and_interest 1 1000 1 2 0 0 = Inr ([0, 400, 1000], [0, 500, 800])
   \<and> (1::nat) \<le> nat (1 * 2)
   \<and> (\<exists>s. loan_state_after 1 1 1000 1 2 0 0 = Inr s
         \<and> [0, 400, 1000] ! 1 + remaining_loan s = 0 + 1000)"
proof -
  have h: "compute_equity_and_interest 1 1000 1 2 0 0 = Inr ([0, 400, 1000], [0, 500, 800])"
    using example_schedule by (simp add: compute_equity_and_interest_def bind_err_def)
  have k: "(1::nat) \<le> nat (1 * 2)" by simp
  from equity_plus_balance_invariant[OF h k] h show ?thesis by simp
qed

section \<open>The house model\<close>

text \<open>The accumulator in end-of-period mode never raises; the lists of the house model
  have the length of the scenario.\<close>

lemma accumulate_series:
  "values_of_series_of_invest xs rs False False
     = Inr (Series (snd (invest_loop (zip xs rs) 0 [])))"
  by (simp add: values_of_series_of_invest_def select_result_def)

lemma accumulate_total:
  "values_of_series_of_invest xs rs True False
     = Inr (Total (fst (invest_loop (zip xs rs) 0 [])))"
  by (simp add: values_of_series_of_invest_def select_result_def)

lemma length_infl_adj:
  "length (infl_adj_extra_cost_per_month tax ins rep infl pr it n) = nat n"
  by (simp add: infl_adj_extra_cost_per_month_def inflation_adjust_def py_repeat_def)

lemma length_total_cost: "length (total_cost_per_month P n costs) = length costs"
  by (simp add: total_cost_per_month_def)

lemma nth_total_cost:
  "i < length costs \<Longrightarrow>
     total_cost_per_month P n costs ! i = costs ! i + (if int i \<le> n then P else 0)"
  by (simp add: total_cost_per_month_def nth_enumerate_eq)

lemma length_rental_income: "length (rental_income a b c d e n) = nat n"
  by (simp add: rental_income_def py_range_def)



lemma loan_remaining_returns:
  "\<exists>rem. loan_remaining L mr P nr nt = Inr rem
     \<and> length rem = nat nr + nat (nt - nr)
     \<and> (\<forall>i. nat nr \<le> i \<and> i < nat nr + nat (nt - nr) \<longrightarrow> rem ! i = 0)"
  by (auto simp: loan_remaining_def accumulate_series bind_err_def invest_loop_length
      unrepaid_loan_remaining_def py_range_def py_repeat_def nth_append)

lemma house_investment_eq:
  assumes P: "compute_mortg_principal mr (hc * (1 - dpp)) mny 12 = Inr P"
    and rem: "loan_remaining (hc * (1 - dpp)) mr P (mny * 12) (mny * 12 + nya * 12) = Inr rem"
  shows "house_investment mr dpp hc tax ins rep er mny nya mri pr infl it mfr =
     Inr (map (\<lambda>i. fst i - snd i) (zip (house_value hc er (mny * 12 + nya * 12)) rem),
          map (\<lambda>i. fst i - snd i)
            (zip (rental_income mri mfr pr it er (mny * 12 + nya * 12))
               (total_cost_per_month P (mny * 12)
                  (infl_adj_extra_cost_per_month tax ins rep infl pr it (mny * 12 + nya * 12)))))"
  by (simp add: house_investment_def Let_def P rem bind_err_def)





text \<open>
  C6. In \<^verbatim>\<open>house_investment\<close>, at every month index \<open>i\<close> below \<open>n_total_months\<close>, the
  total monthly cost is the inflation-adjusted, deduction-reduced extra cost plus the
  mortgage payment when \<open>i \<le> n_months_repay\<close> and the extra cost alone otherwise (and the
  monthly income is the rental income minus that cost); the months with the payment are
  \<open>n_months_repay + 1\<close> many when \<^verbatim>\<open>n_years_after_pay_off\<close> is at least 1.
\<close>

theorem mortgage_payment_months:
  assumes "0 \<le> mny" "0 \<le> nya"
    and "compute_mortg_principal mr (hc * (1 - dpp)) mny 12 = Inr P"
  shows "\<exists>eq inc. house_investment mr dpp hc tax ins rep er mny nya mri pr infl it mfr = Inr (eq, inc)
    \<and> length (total_cost_per_month P (mny * 12)
                (infl_adj_extra_cost_per_month tax ins rep infl pr it (mny * 12 + nya * 12)))
        = nat (mny * 12 + nya * 12)
    \<and> (\<forall>i < nat (mny * 12 + nya * 12).
          total_cost_per_month P (mny * 12)
             (infl_adj_extra_cost_per_month tax ins rep infl pr it (mny * 12 + nya * 12)) ! i
          = infl_adj_extra_cost_per_month tax ins rep infl pr it (mny * 12 + nya * 12) ! i
             + (if int i \<le> mny * 12 then P else 0)
        \<and> inc ! i = rental_income mri mfr pr it er (mny * 12 + nya * 12) ! i
             - total_cost_per_month P (mny * 12)
                 (infl_adj_extra_cost_per_month tax ins rep infl pr it (mny * 12 + nya * 12)) ! i)
    \<and> (1 \<le> nya \<longrightarrow>
          length (filter (\<lambda>i. int i \<le> mny * 12) [0..<nat (mny * 12 + nya * 12)])
            = nat (mny * 12) + 1)"
proof -
  from loan_remaining_returns[of "hc * (1 - dpp)" mr P "mny * 12" "mny * 12 + nya * 12"]
  obtain rem where rem: "loan_remaining (hc * (1 - dpp)) mr P (mny * 12) (mny * 12 + nya * 12) = Inr rem"
    by blast
  note heq = house_investment_eq[OF assms(3) rem, of tax ins rep er mri pr infl it mfr]
  have cnt: "length (filter (\<lambda>i. int i \<le> mny * 12) [0..<nat (mny * 12 + nya * 12)])
            = nat (mny * 12) + 1" if "1 \<le> nya"
  proof -
    have le: "nat (mny * 12) + 1 \<le> nat (mny * 12 + nya * 12)" using that assms(1) by linarith
    have "filter (\<lambda>i. int i \<le> mny * 12) [0..<nat (mny * 12 + nya * 12)]
            = [0..<nat (mny * 12) + 1]"
    proof -
      have "[0..<nat (mny * 12 + nya * 12)]
              = [0..<nat (mny * 12) + 1] @ [nat (mny * 12) + 1..<nat (mny * 12 + nya * 12)]"
        using le by (metis upt_add_eq_append le_add_diff_inverse zero_le)
      moreover have "filter (\<lambda>i. int i \<le> mny * 12) [0..<nat (mny * 12) + 1] = [0..<nat (mny * 12) + 1]"
        using assms(1) by (intro filter_True) auto
      moreover have "filter (\<lambda>i. int i \<le> mny * 12) [nat (mny * 12) + 1..<nat (mny * 12 + nya * 12)] = []"
        using assms(1) by (intro filter_False) auto
      ultimately show ?thesis using assms(1) by simp
    qed
    then show ?thesis by simp
  qed
  show ?thesis
    apply (intro exI conjI)
       apply (rule heq)
      apply (simp add: length_total_cost length_infl_adj)
     apply (simp add: nth_total_cost length_total_cost length_infl_adj length_rental_income)
    using cnt apply blast
    done
qed

theorem mortgage_payment_months_witness:
  "(0::int) \<le> 1 \<and> (0::int) \<le> 1
  \<and> compute_mortg_principal 0 (240 * (1 - 1 / 2)) 1 12 = Inr 10
  \<and> (\<exists>eq inc. house_investment 0 (1 / 2) 240 12 12 12 0 1 1 10 1 0 0 0 = Inr (eq, inc)
    \<and> length (total_cost_per_month 10 (1 * 12)
                (infl_adj_extra_cost_per_month 12 12 12 0 1 0 (1 * 12 + 1 * 12)))
        = nat (1 * 12 + 1 * 12)
    \<and> (\<forall>i < nat (1 * 12 + 1 * 12).
          total_cost_per_month 10 (1 * 12)
             (infl_adj_extra_cost_per_month 12 12 12 0 1 0 (1 * 12 + 1 * 12)) ! i
          = infl_adj_extra_cost_per_month 12 12 12 0 1 0 (1 * 12 + 1 * 12) ! i
             + (if int i \<le> 1 * 12 then 10 else 0)
        \<and> inc ! i = rental_income 10 0 1 0 0 (1 * 12 + 1 * 12) ! i
             - total_cost_per_month 10 (1 * 12)
                 (infl_adj_extra_cost_per_month 12 12 12 0 1 0 (1 * 12 + 1 * 12)) ! i)
    \<and> ((1::int) \<le> 1 \<longrightarrow>
          length (filter (\<lambda>i. int i \<le> 1 * 12) [0..<nat (1 * 12 + 1 * 12)])
            = nat (1 * 12) + 1))"
proof -
  have p: "compute_mortg_principal 0 (240 * (1 - 1 / 2)) 1 12 = Inr 10"
    by (simp add: compute_mortg_principal_def py_div_def)
  from mortgage_payment_months[OF _ _ p, of 1 12 12 12 0 10 1 0 0 0] p show ?thesis
    by simp
qed

section \<open>The comparison\<close>

lemma accumulate_series_nth:
  assumes "i < length xs"
  shows "snd (invest_loop (zip xs (replicate (length xs) r)) 0 []) ! i
       = fst (invest_loop (zip (take (Suc i) xs) (replicate (Suc i) r)) 0 [])"
proof -
  have "i < length (zip xs (replicate (length xs) r))" using assms by simp
  from invest_loop_nth[OF this, of 0 "[]"] assms show ?thesis
    by (simp add: take_zip min_def)
qed

lemma nat_Suc_int: "nat (1 + int i) = Suc i"
  by simp

lemma compare_eq:
  "compare_house_invest_vs_stock eq mi smr dpp hc =
     Inr (map (\<lambda>i. fst i + snd i)
            (zip eq (snd (invest_loop (zip (map (\<lambda>x. max x 0) mi)
                                         (replicate (length mi) (smr / 12))) 0 []))),
          map (\<lambda>(i, j). i + j)
            (zip (map (\<lambda>i. dpp * hc * (1 + smr / 12) ^ (i + 1)) [0..<length mi])
                 (snd (invest_loop (zip (map (\<lambda>x. max (- x) 0) mi)
                                         (replicate (length mi) (smr / 12))) 0 []))))"
proof -
  have p: "(\<lambda>inc::real. inc * of_bool (inc > 0)) = (\<lambda>x. max x 0)" by (auto simp: max_def)
  have n: "(\<lambda>inc::real. - (inc * of_bool (inc \<le> 0))) = (\<lambda>x. max (- x) 0)"
    by (auto simp: max_def)
  show ?thesis
    by (simp add: compare_house_invest_vs_stock_def Let_def accumulate_series bind_err_def
        py_repeat_def py_range_def p n)
qed

text \<open>
  C7. For an equity sequence and a monthly income sequence of the same length,
  \<^verbatim>\<open>compare_house_invest_vs_stock\<close> returns two sequences of that length; at index \<open>i\<close>
  the first is the equity plus what the end-of-period accumulator, at the rate
  \<open>stock_market_rate / 12\<close>, makes of the non-negative parts of the income through period
  \<open>i\<close>, and the second is the down payment compounded \<open>i + 1\<close> times at that rate plus
  what the accumulator makes of the magnitudes of the non-positive parts through period \<open>i\<close>.
\<close>

theorem compare_house_invest_vs_stock_series:
  assumes "length eq = length mi"
  shows "\<exists>hi si. compare_house_invest_vs_stock eq mi smr dpp hc = Inr (hi, si)
    \<and> length hi = length mi \<and> length si = length mi
    \<and> (\<forall>i < length mi.
          values_of_series_of_invest (take (Suc i) (map (\<lambda>x. max x 0) mi))
            (py_repeat (smr / 12) (int (Suc i))) True False = Inr (Total (hi ! i - eq ! i))
        \<and> values_of_series_of_invest (take (Suc i) (map (\<lambda>x. max (- x) 0) mi))
            (py_repeat (smr / 12) (int (Suc i))) True False
            = Inr (Total (si ! i - dpp * hc * (1 + smr / 12) ^ (i + 1))))"
proof (intro exI conjI allI impI)
  show "compare_house_invest_vs_stock eq mi smr dpp hc = Inr
     (map (\<lambda>i. fst i + snd i)
            (zip eq (snd (invest_loop (zip (map (\<lambda>x. max x 0) mi)
                                         (replicate (length mi) (smr / 12))) 0 []))),
          map (\<lambda>(i, j). i + j)
            (zip (map (\<lambda>i. dpp * hc * (1 + smr / 12) ^ (i + 1)) [0..<length mi])
                 (snd (invest_loop (zip (map (\<lambda>x. max (- x) 0) mi)
                                         (replicate (length mi) (smr / 12))) 0 []))))"
    by (rule compare_eq)
next
  show "length (map (\<lambda>i. fst i + snd i)
            (zip eq (snd (invest_loop (zip (map (\<lambda>x. max x 0) mi)
                                         (replicate (length mi) (smr / 12))) 0 [])))) = length mi"
    using assms by (simp add: invest_loop_length)
next
  show "length (map (\<lambda>(i, j). i + j)
            (zip (map (\<lambda>i. dpp * hc * (1 + smr / 12) ^ (i + 1)) [0..<length mi])
                 (snd (invest_loop (zip (map (\<lambda>x. max (- x) 0) mi)
                                         (replicate (length mi) (smr / 12))) 0 [])))) = length mi"
    by (simp add: invest_loop_length)
next
  fix i assume i: "i < length mi"
  then have "i < length (map (\<lambda>x. max x 0) mi)" by simp
  from accumulate_series_nth[OF this, of "smr / 12"] i assms
  show "values_of_series_of_invest (take (Suc i) (map (\<lambda>x. max x 0) mi))
            (py_repeat (smr / 12) (int (Suc i))) True False
        = Inr (Total (map (\<lambda>i. fst i + snd i)
            (zip eq (snd (invest_loop (zip (map (\<lambda>x. max x 0) mi)
                                         (replicate (length mi) (smr / 12))) 0 []))) ! i - eq ! i))"
    by (simp add: accumulate_total py_repeat_def invest_loop_length nat_Suc_int
        del: replicate_Suc)
next
  fix i assume i: "i < length mi"
  then have "i < length (map (\<lambda>x. max (- x) 0) mi)" by simp
  from accumulate_series_nth[OF this, of "smr / 12"] i
  show "values_of_series_of_invest (take (Suc i) (map (\<lambda>x. max (- x) 0) mi))
            (py_repeat (smr / 12) (int (Suc i))) True False
        = Inr (Total (map (\<lambda>(i, j). i + j)
            (zip (map (\<lambda>i. dpp * hc * (1 + smr / 12) ^ (i + 1)) [0..<length mi])
                 (snd (invest_loop (zip (map (\<lambda>x. max (- x) 0) mi)
                                         (replicate (length mi) (smr / 12))) 0 []))) ! i
             - dpp * hc * (1 + smr / 12) ^ (i + 1)))"
    by (simp add: accumulate_total py_repeat_def invest_loop_length nat_Suc_int
        del: replicate_Suc)
qed

theorem compare_house_invest_vs_stock_series_witness:
  "length [1, 2, 3 :: real] = length [1, - 1, 0 :: real]
   \<and> (\<exists>hi si. compare_house_invest_vs_stock [1, 2, 3] [1, - 1, 0] 12 (1 / 10) 100 = Inr (hi, si)
    \<and> length hi = length [1, - 1, 0 :: real] \<and> length si = length [1, - 1, 0 :: real]
    \<and> (\<forall>i < length [1, - 1, 0 :: real].
          values_of_series_of_invest (take (Suc i) (map (\<lambda>x. max x 0) [1, - 1, 0]))
            (py_repeat (12 / 12) (int (Suc i))) True False = Inr (Total (hi ! i - [1, 2, 3] ! i))
        \<and> values_of_series_of_invest (take (Suc i) (map (\<lambda>x. max (- x) 0) [1, - 1, 0]))
            (py_repeat (12 / 12) (int (Suc i))) True False
            = Inr (Total (si ! i - 1 / 10 * 100 * (1 + 12 / 12) ^ (i + 1)))))"
  using compare_house_invest_vs_stock_series[of "[1, 2, 3]" "[1, - 1, 0]" 12 "1 / 10" 100]
  by simp

end
